theory Spec2Isabelle
  imports Complex_Main "HOL-Library.AList" "HOL-Library.Log_Nat"
begin

section \<open>JavaScript numbers\<close>

text \<open>
  Rates and amounts of money are JavaScript numbers: IEEE 754 doubles. A finite double is
  a rational number, so a number is a \<open>rat\<close> here, and the result of an arithmetic
  operation is the exact result rounded to the nearest double, ties to the even
  significand. \<open>NaN\<close>, the infinities and the sign of zero are not represented: a sum
  whose magnitude reaches \<open>2^1024\<close> is \<open>Infinity\<close> in the source and a finite number here.
\<close>

text \<open>The power of two with an integer exponent.\<close>

definition pow2 :: "int \<Rightarrow> rat" where
  "pow2 k = (if 0 \<le> k then 2 ^ nat k else 1 / 2 ^ nat (- k))"

text \<open>The binary exponent of a positive number: the \<open>k\<close> with \<open>2^k \<le> x < 2^(k+1)\<close>.\<close>

definition ilog2 :: "rat \<Rightarrow> int" where
  "ilog2 x = (if 1 \<le> x then bitlen \<lfloor>x\<rfloor> - 1 else - bitlen (\<lceil>1 / x\<rceil> - 1))"

text \<open>Rounding to the nearest integer, a tie going to the even one.\<close>

definition roundEven :: "rat \<Rightarrow> int" where
  "roundEven y =
     (let f = \<lfloor>y\<rfloor>; r = y - of_int f
      in if r < 1 / 2 then f else if 1 / 2 < r then f + 1 else if even f then f else f + 1)"

text \<open>
  Rounding to the nearest double: 53 significant bits, and no bit below \<open>2^-1074\<close>
  (the subnormal numbers).
\<close>

definition roundDouble :: "rat \<Rightarrow> rat" where
  "roundDouble x =
     (if x = 0 then 0
      else (let e = max (ilog2 \<bar>x\<bar> - 52) (- 1074)
            in of_int (roundEven (x / pow2 e)) * pow2 e))"

text \<open>The operator \<open>+\<close> on two numbers, and \<open>+=\<close>.\<close>

definition jsAdd :: "rat \<Rightarrow> rat \<Rightarrow> rat" where
  "jsAdd a b = roundDouble (a + b)"

text \<open>
  The sum of an array of numbers as a program computes it, from \<open>0\<close> and from left to
  right: \<open>xs.reduce((s, x) => s + x, 0)\<close>.
\<close>

definition jsSum :: "rat list \<Rightarrow> rat" where
  "jsSum xs = foldl jsAdd 0 xs"

section \<open>Data model (types/index.ts)\<close>

text \<open>
  Strings are \<open>string\<close>; numbers are as in the previous section.
  The field \<open>id\<close> of an article is \<open>string option\<close>: \<open>None\<close> is an object on which the
  property is absent (it reads as \<open>undefined\<close>), since \<open>fetchNewsSuccess\<close> tests for it.
  The field \<open>type\<close> is a plain string, because the reducers compare it with the literal
  \<open>'news'\<close> and accept whatever else they are handed.
\<close>

record Source =
  srcId :: "string option"
  srcName :: string

record Article =
  aId :: "string option"
  aTitle :: string
  aDescription :: string
  aContent :: string
  aAuthor :: string
  aPublishedAt :: string
  aUrl :: string
  aUrlToImage :: string
  aSource :: Source
  aType :: string

record PayoutRate =
  newsRate :: rat
  blogRate :: rat

text \<open>The object literal pushed onto \<open>authorData.articles\<close> by \<open>calculatePayouts\<close>.\<close>

record LineItem =
  liId :: "string option"
  liTitle :: string
  liType :: string
  liPublishedAt :: string
  liRate :: rat

record AuthorPayout =
  author :: string
  articleCount :: nat
  totalPayout :: rat
  articles :: "LineItem list"

record PayoutState =
  rates :: PayoutRate
  authorPayouts :: "AuthorPayout list"
  payoutLoading :: bool
  payoutError :: "string option"

section \<open>Payout engine (redux/payoutSlice.ts)\<close>

text \<open>
  \<open>new Map<string, AuthorPayout>()\<close> is an association list in insertion order:
  \<open>Map.set\<close> on a new key appends, on an existing key replaces in place
  (\<open>AList.update\<close>); \<open>Map.has\<close> is \<open>map_of \<dots> \<noteq> None\<close>; \<open>Map.get\<close> hands out a
  reference to the stored object, so the three assignments through \<open>authorData\<close> change
  the entry where it sits (\<open>AList.map_entry\<close>); \<open>Array.from(authors.values())\<close> is
  \<open>map snd\<close>.
\<close>

type_synonym AuthorMap = "(string \<times> AuthorPayout) list"

text \<open>The body of \<open>articles.forEach(article => \<dots>)\<close>, lines 81 to 104.\<close>

definition addArticle :: "PayoutRate \<Rightarrow> AuthorMap \<Rightarrow> Article \<Rightarrow> AuthorMap" where
  "addArticle rs authors article =
    (let rate = (if aType article = ''news'' then newsRate rs else blogRate rs);
         authors1 =
           (if map_of authors (aAuthor article) = None
            then AList.update (aAuthor article)
                   \<lparr>author = aAuthor article, articleCount = 0, totalPayout = 0, articles = []\<rparr>
                   authors
            else authors)
     in AList.map_entry (aAuthor article)
          (\<lambda>authorData. authorData
             \<lparr>articleCount := articleCount authorData + 1,
              totalPayout := jsAdd (totalPayout authorData) rate,
              articles := articles authorData @
                [\<lparr>liId = aId article, liTitle = aTitle article, liType = aType article,
                  liPublishedAt = aPublishedAt article, liRate = rate\<rparr>]\<rparr>)
          authors1)"

text \<open>
  The pass of \<open>calculatePayouts\<close> over its payload, for the rate table \<open>rs\<close>: the loop
  from an empty \<open>Map\<close>, then \<open>Array.from(authors.values())\<close>.
\<close>

definition aggregate :: "PayoutRate \<Rightarrow> Article list \<Rightarrow> AuthorPayout list" where
  "aggregate rs payload = map snd (foldl (addArticle rs) [] payload)"

text \<open>The reducer \<open>calculatePayouts\<close>: the rate table is \<open>state.rates\<close>.\<close>

definition calculatePayouts :: "PayoutState \<Rightarrow> Article list \<Rightarrow> PayoutState" where
  "calculatePayouts state payload =
     state\<lparr>authorPayouts := aggregate (rates state) payload\<rparr>"

text \<open>
  \<open>recalculatePayouts\<close>: the inner \<open>map\<close> callback adds to the local \<open>totalPayout\<close> while it
  builds the updated line items, so it is a left fold over the pair (total, items so far).
\<close>

definition rescaleItems :: "PayoutRate \<Rightarrow> LineItem list \<Rightarrow> rat \<times> LineItem list" where
  "rescaleItems rs items =
     foldl (\<lambda>(totalSoFar, updated) article.
              (let rate = (if liType article = ''news'' then newsRate rs else blogRate rs)
               in (jsAdd totalSoFar rate, updated @ [article\<lparr>liRate := rate\<rparr>])))
           (0, []) items"

definition recalculatePayouts :: "AuthorPayout list \<Rightarrow> PayoutRate \<Rightarrow> AuthorPayout list" where
  "recalculatePayouts payouts rs =
     map (\<lambda>payout.
            (case rescaleItems rs (articles payout) of
               (newTotal, updatedArticles) \<Rightarrow>
                 payout\<lparr>totalPayout := newTotal, articles := updatedArticles\<rparr>))
         payouts"

definition updateRates :: "PayoutState \<Rightarrow> PayoutRate \<Rightarrow> PayoutState" where
  "updateRates state payload =
     state\<lparr>rates := payload,
           authorPayouts := recalculatePayouts (authorPayouts state) payload\<rparr>"

definition clearPayouts :: "PayoutState \<Rightarrow> PayoutState" where
  "clearPayouts state = state\<lparr>authorPayouts := []\<rparr>"

definition initialPayoutState :: PayoutState where
  "initialPayoutState =
     \<lparr>rates = \<lparr>newsRate = 50, blogRate = 100\<rparr>, authorPayouts = [],
      payoutLoading = False, payoutError = None\<rparr>"

text \<open>
  First-occurrence order, in the words of the specification: the distinct elements of a
  list, each at the place where it is first met.
\<close>

fun firstSeen :: "'a list \<Rightarrow> 'a list" where
  "firstSeen [] = []"
| "firstSeen (x # xs) = x # filter (\<lambda>y. y \<noteq> x) (firstSeen xs)"

text \<open>The rate the specification assigns to an article: \<open>rate(a.type, R)\<close>.\<close>

definition rateOf :: "PayoutRate \<Rightarrow> string \<Rightarrow> rat" where
  "rateOf R ty = (if ty = ''news'' then newsRate R else blogRate R)"

text \<open>
  The line item of an article under a rate table, and the aggregate of one author: the
  author's articles counted, their rates added from left to right, their line items listed.
\<close>

definition lineItemOf :: "PayoutRate \<Rightarrow> Article \<Rightarrow> LineItem" where
  "lineItemOf R a =
     \<lparr>liId = aId a, liTitle = aTitle a, liType = aType a,
      liPublishedAt = aPublishedAt a, liRate = rateOf R (aType a)\<rparr>"

definition articlesBy :: "string \<Rightarrow> Article list \<Rightarrow> Article list" where
  "articlesBy au A = filter (\<lambda>a. aAuthor a = au) A"

definition aggregateOf :: "PayoutRate \<Rightarrow> Article list \<Rightarrow> string \<Rightarrow> AuthorPayout" where
  "aggregateOf R A au =
     \<lparr>author = au,
      articleCount = length (articlesBy au A),
      totalPayout = jsSum (map (\<lambda>a. rateOf R (aType a)) (articlesBy au A)),
      articles = map (lineItemOf R) (articlesBy au A)\<rparr>"

section \<open>News slice (redux/newsSlice.ts)\<close>

record NewsState =
  newsArticles :: "Article list"
  filteredArticles :: "Article list"
  loading :: bool
  error :: "string option"

text \<open>
  What \<open>fetchNewsSuccess\<close> can be handed at run time: the payload is an array or not, and
  an element of the array is an object (\<open>typeof article === 'object'\<close>, not \<open>null\<close>) or
  anything else (\<open>null\<close>, \<open>undefined\<close>, a primitive).
\<close>

datatype entry = NonObject | Object Article

datatype payload = NotAnArray | ArrayOf "entry list"

text \<open>A string-or-absent value in boolean position: \<open>undefined\<close>, \<open>null\<close> and \<open>""\<close> are falsy.\<close>

definition truthy :: "string option \<Rightarrow> bool" where
  "truthy v = (case v of None \<Rightarrow> False | Some s \<Rightarrow> s \<noteq> [])"

text \<open>
  \<open>fetchNewsSuccess\<close>. Nothing in the \<open>try\<close> block throws on these inputs, so the \<open>catch\<close>
  branch has no counterpart. The retained entries are the very objects of the payload.
\<close>

definition fetchNewsSuccess :: "NewsState \<Rightarrow> payload \<Rightarrow> NewsState" where
  "fetchNewsSuccess state action =
     (let articles = (case action of ArrayOf es \<Rightarrow> es | NotAnArray \<Rightarrow> []);
          cleanArticles =
            filter (\<lambda>article. case article of NonObject \<Rightarrow> False
                               | Object a \<Rightarrow> truthy (aId a)) articles;
          cleaned = [a. Object a \<leftarrow> cleanArticles]
      in state\<lparr>loading := False, newsArticles := cleaned,
               filteredArticles := cleaned, error := None\<rparr>)"

record FilterState =
  fAuthor :: "string option"
  dateFrom :: "string option"
  dateTo :: "string option"
  fType :: string
  searchQuery :: string

text \<open>
  \<open>String.prototype.toLowerCase\<close> and \<open>String.prototype.includes\<close>. Only the letters A
  to Z are lowered here; the source also folds the letters outside ASCII.
\<close>

definition lowerChar :: "char \<Rightarrow> char" where
  "lowerChar c =
     (case map_of (zip ''ABCDEFGHIJKLMNOPQRSTUVWXYZ'' ''abcdefghijklmnopqrstuvwxyz'') c of
        Some l \<Rightarrow> l | None \<Rightarrow> c)"

definition toLowerCase :: "string \<Rightarrow> string" where
  "toLowerCase s = map lowerChar s"

fun includes_js :: "string \<Rightarrow> string \<Rightarrow> bool" where
  "includes_js [] q = (q = [])"
| "includes_js (c # s) q = (take (length q) (c # s) = q \<or> includes_js s q)"

text \<open>
  Dates. \<open>new Date(s)\<close> is taken from the host: \<open>clock s\<close> is its time value in
  milliseconds, \<open>None\<close> when the date is invalid (\<open>getTime()\<close> is \<open>NaN\<close>). The relational
  operators compare the time values, and every comparison with \<open>NaN\<close> is false.
\<close>

type_synonym clock = "string \<Rightarrow> int option"

definition dateGe :: "int option \<Rightarrow> int option \<Rightarrow> bool" where
  "dateGe d e = (case d of None \<Rightarrow> False
                 | Some x \<Rightarrow> (case e of None \<Rightarrow> False | Some y \<Rightarrow> x \<ge> y))"

definition dateLe :: "int option \<Rightarrow> int option \<Rightarrow> bool" where
  "dateLe d e = (case d of None \<Rightarrow> False
                 | Some x \<Rightarrow> (case e of None \<Rightarrow> False | Some y \<Rightarrow> x \<le> y))"

text \<open>The five stages of \<open>filterNews\<close>, in the order of the source.\<close>

definition byAuthor :: "string option \<Rightarrow> Article list \<Rightarrow> Article list" where
  "byAuthor au filtered =
     (case au of
        None \<Rightarrow> filtered
      | Some a \<Rightarrow>
          if a = [] then filtered
          else filter (\<lambda>article. aAuthor article \<noteq> [] \<and>
                         includes_js (toLowerCase (aAuthor article)) (toLowerCase a)) filtered)"

definition byDateFrom :: "clock \<Rightarrow> string option \<Rightarrow> Article list \<Rightarrow> Article list" where
  "byDateFrom clock df filtered =
     (case df of
        None \<Rightarrow> filtered
      | Some d \<Rightarrow>
          if d = [] then filtered
          else (let fromDate = clock d
                in filter (\<lambda>article. aPublishedAt article \<noteq> [] \<and>
                             clock (aPublishedAt article) \<noteq> None \<and>
                             dateGe (clock (aPublishedAt article)) fromDate) filtered))"

definition byDateTo :: "clock \<Rightarrow> string option \<Rightarrow> Article list \<Rightarrow> Article list" where
  "byDateTo clock dt filtered =
     (case dt of
        None \<Rightarrow> filtered
      | Some d \<Rightarrow>
          if d = [] then filtered
          else (let toDate = clock d
                in filter (\<lambda>article. aPublishedAt article \<noteq> [] \<and>
                             clock (aPublishedAt article) \<noteq> None \<and>
                             dateLe (clock (aPublishedAt article)) toDate) filtered))"

definition byType :: "string \<Rightarrow> Article list \<Rightarrow> Article list" where
  "byType ty filtered =
     (if ty \<noteq> [] \<and> ty \<noteq> ''all''
      then filter (\<lambda>article. aType article \<noteq> [] \<and> aType article = ty) filtered
      else filtered)"

definition bySearch :: "string \<Rightarrow> Article list \<Rightarrow> Article list" where
  "bySearch sq filtered =
     (if sq \<noteq> []
      then (let query = toLowerCase sq
            in filter (\<lambda>article.
                 (aTitle article \<noteq> [] \<and> includes_js (toLowerCase (aTitle article)) query) \<or>
                 (aDescription article \<noteq> [] \<and>
                    includes_js (toLowerCase (aDescription article)) query) \<or>
                 (aAuthor article \<noteq> [] \<and> includes_js (toLowerCase (aAuthor article)) query))
               filtered)
      else filtered)"

text \<open>
  \<open>filterNews\<close>. On typed articles no stage throws, so the \<open>catch\<close> branch (show all
  articles) has no counterpart.
\<close>

definition filterNews :: "clock \<Rightarrow> NewsState \<Rightarrow> FilterState \<Rightarrow> NewsState" where
  "filterNews clock state action =
     state\<lparr>filteredArticles :=
       bySearch (searchQuery action)
         (byType (fType action)
           (byDateTo clock (dateTo action)
             (byDateFrom clock (dateFrom action)
               (byAuthor (fAuthor action) (newsArticles state)))))\<rparr>"

text \<open>The initial state of the filter slice (redux/filterSlice.ts): every stage passes.\<close>

definition initialFilterState :: FilterState where
  "initialFilterState =
     \<lparr>fAuthor = None, dateFrom = None, dateTo = None, fType = ''all'', searchQuery = []\<rparr>"

text \<open>
  The date bounds as a condition on one article: a bound that is \<open>null\<close> or empty asks
  nothing; a bound that is set asks that the article's \<open>publishedAt\<close> is non-empty and
  that both it and the bound are valid dates, the article's not before the lower bound
  (not after the upper bound), equality included.
\<close>

definition withinLower :: "clock \<Rightarrow> string option \<Rightarrow> Article \<Rightarrow> bool" where
  "withinLower clock bound a =
     (case bound of
        None \<Rightarrow> True
      | Some d \<Rightarrow>
          if d = [] then True
          else (case clock (aPublishedAt a) of
                  None \<Rightarrow> False
                | Some t \<Rightarrow> (case clock d of
                               None \<Rightarrow> False
                             | Some b \<Rightarrow> aPublishedAt a \<noteq> [] \<and> b \<le> t)))"

definition withinUpper :: "clock \<Rightarrow> string option \<Rightarrow> Article \<Rightarrow> bool" where
  "withinUpper clock bound a =
     (case bound of
        None \<Rightarrow> True
      | Some d \<Rightarrow>
          if d = [] then True
          else (case clock (aPublishedAt a) of
                  None \<Rightarrow> False
                | Some t \<Rightarrow> (case clock d of
                               None \<Rightarrow> False
                             | Some b \<Rightarrow> aPublishedAt a \<noteq> [] \<and> t \<le> b)))"

section \<open>Offline store (services/indexedDbService.ts)\<close>

text \<open>
  A promise that has settled: rejected (the \<open>await\<close> throws) or resolved with a value.
\<close>

datatype 'a outcome = Rejected | Resolved 'a

text \<open>
  An object that has the two properties of a rate table and may have a property \<open>id\<close>.
  A rate table as the payout slice holds it has none: \<open>plainRates\<close>.
\<close>

record RatesObject = PayoutRate +
  objId :: "string option"

definition plainRates :: "PayoutRate \<Rightarrow> RatesObject" where
  "plainRates r = \<lparr>newsRate = newsRate r, blogRate = blogRate r, objId = None\<rparr>"

text \<open>
  What a read hands back: \<open>undefined\<close>, \<open>null\<close> or an object. \<open>IDBObjectStore.get\<close>
  succeeds with \<open>undefined\<close> when no record has the key. In \<open>x || null\<close> an object is
  truthy; \<open>undefined\<close> and \<open>null\<close> are not.
\<close>

datatype 'a reading = Undefined | Null | Found 'a

definition storeGet :: "(string \<rightharpoonup> 'a) \<Rightarrow> string \<Rightarrow> 'a reading" where
  "storeGet store k = (case store k of None \<Rightarrow> Undefined | Some v \<Rightarrow> Found v)"

definition orNull :: "'a reading \<Rightarrow> 'a reading" where
  "orNull x = (case x of Found v \<Rightarrow> Found v | Undefined \<Rightarrow> Null | Null \<Rightarrow> Null)"

text \<open>
  The database after \<open>initDB\<close>: three object stores, keyed by \<open>id\<close>, \<open>author\<close> and \<open>id\<close>.
  \<open>opens\<close> says whether \<open>indexedDB.open\<close> succeeds; when it does not, \<open>initDB\<close> rejects
  and so does every operation.
\<close>

record IDB =
  opens :: bool
  articlesStore :: "string \<rightharpoonup> Article"
  payoutsStore :: "string \<rightharpoonup> AuthorPayout"
  settingsStore :: "string \<rightharpoonup> RatesObject"

text \<open>The stores as \<open>onupgradeneeded\<close> creates them.\<close>

definition freshDB :: IDB where
  "freshDB = \<lparr>opens = True, articlesStore = Map.empty, payoutsStore = Map.empty,
              settingsStore = Map.empty\<rparr>"

text \<open>
  The object literal \<open>{ id: 'payoutRates', ...rates }\<close>: the spread comes second, so an
  \<open>id\<close> of \<open>rates\<close> itself would replace the literal one.
\<close>

definition keyOf :: "RatesObject \<Rightarrow> string" where
  "keyOf rs = (case objId rs of None \<Rightarrow> ''payoutRates'' | Some i \<Rightarrow> i)"

definition withKey :: "RatesObject \<Rightarrow> RatesObject" where
  "withKey rs = rs\<lparr>objId := Some (keyOf rs)\<rparr>"

text \<open>
  \<open>savePayoutRates\<close>: one read-write transaction holding one \<open>put\<close>; the store's key path
  is \<open>id\<close>, so the record goes under the value of its \<open>id\<close>. \<open>commits\<close> says whether the
  transaction completes (\<open>oncomplete\<close>) or fails (\<open>onerror\<close>); a failed transaction
  leaves the store as it was.
\<close>

definition savePayoutRates :: "RatesObject \<Rightarrow> bool \<Rightarrow> IDB \<Rightarrow> unit outcome \<times> IDB" where
  "savePayoutRates rs commits db =
     (if \<not> opens db then (Rejected, db)
      else if commits
      then (Resolved (), db\<lparr>settingsStore := (settingsStore db)(keyOf rs \<mapsto> withKey rs)\<rparr>)
      else (Rejected, db))"

text \<open>
  \<open>getPayoutRates\<close>: \<open>store.get('payoutRates')\<close>, resolved with \<open>request.result || null\<close>.
  \<open>succeeds\<close> says whether the request ends in \<open>onsuccess\<close> or in \<open>onerror\<close>.
\<close>

definition getPayoutRates :: "bool \<Rightarrow> IDB \<Rightarrow> RatesObject reading outcome" where
  "getPayoutRates succeeds db =
     (if \<not> opens db then Rejected
      else if succeeds then Resolved (orNull (storeGet (settingsStore db) ''payoutRates''))
      else Rejected)"

section \<open>News service (services/newsService.ts)\<close>

text \<open>
  The body of an HTTP response as the service reads it: \<open>status\<close>, and \<open>articles\<close> when
  that field is an array (\<open>None\<close> when it is missing).
\<close>

record ResponseData =
  status :: string
  respArticles :: "Article list option"

text \<open>
  Everything \<open>fetchAllArticles\<close> obtains from outside, one field per call it makes:
  the three HTTP requests (rejected on a transport error or a non-2xx status, else the
  response's \<open>data\<close>, which may be empty), the connectivity probe, whether a given
  \<open>saveArticles\<close> call completes, the cache read, and the timestamp string the mock
  generator computes for each index from \<open>Math.random\<close> and the current date.
\<close>

record World =
  serverRoute :: "ResponseData option outcome"
  isOnline :: bool
  saveArticles :: "Article list \<Rightarrow> unit outcome"
  apiKeySet :: bool
  newsApiTechnology :: "ResponseData option outcome"
  newsApiBusiness :: "ResponseData option outcome"
  getArticles :: "Article list outcome"
  mockPublishedAt :: "nat \<Rightarrow> string"

definition fetchFromServerRoute :: "ResponseData option outcome \<Rightarrow> Article list outcome" where
  "fetchFromServerRoute response =
     (case response of
        Rejected \<Rightarrow> Rejected
      | Resolved None \<Rightarrow> Rejected
      | Resolved (Some d) \<Rightarrow>
          (case respArticles d of
             None \<Rightarrow> Rejected
           | Some as \<Rightarrow> if status d \<noteq> ''ok'' then Rejected else Resolved as))"

definition fetchFromNewsAPI :: "bool \<Rightarrow> ResponseData option outcome \<Rightarrow> Article list outcome" where
  "fetchFromNewsAPI keySet response =
     (if \<not> keySet then Rejected
      else (case response of
              Rejected \<Rightarrow> Rejected
            | Resolved None \<Rightarrow> Rejected
            | Resolved (Some d) \<Rightarrow>
                if status d \<noteq> ''ok'' then Rejected
                else Resolved (case respArticles d of None \<Rightarrow> [] | Some as \<Rightarrow> as)))"

text \<open>Decimal digits of a number, for the template literals.\<close>

fun showNat :: "nat \<Rightarrow> string" where
  "showNat n = (if n < 10 then [''0123456789'' ! n]
                else showNat (n div 10) @ [''0123456789'' ! (n mod 10)])"

definition mockAuthors :: "string list" where
  "mockAuthors = [''Sarah Johnson'', ''Michael Chen'', ''Emily Rodriguez'', ''David Kim'',
     ''Jessica Thompson'', ''Alex Williams'', ''Maria Garcia'', ''James Brown'']"

definition newsTopics :: "string list" where
  "newsTopics = [''Technology Breakthrough'', ''Market Analysis'', ''Climate Change Update'',
     ''Healthcare Innovation'', ''Economic Forecast'', ''Scientific Discovery'',
     ''Space Exploration'', ''Renewable Energy'']"

definition blogTopics :: "string list" where
  "blogTopics = [''Best Practices Guide'', ''Industry Insights'', ''Professional Tips'',
     ''Career Advice'', ''Productivity Hacks'', ''Leadership Strategies'',
     ''Innovation Trends'', ''Success Stories'']"

text \<open>The callback of \<open>Array.from({ length: 20 }, (_, index) => \<dots>)\<close>.\<close>

definition mockArticle :: "(nat \<Rightarrow> string) \<Rightarrow> nat \<Rightarrow> Article" where
  "mockArticle stamp index =
     (let isNews = (index mod 3 \<noteq> 0);
          topics = (if isNews then newsTopics else blogTopics);
          topic = topics ! (index mod length topics);
          author = mockAuthors ! (index mod length mockAuthors)
      in \<lparr>aId = Some (''mock-'' @ showNat (index + 1)),
          aTitle = topic @ '': '' @ (if isNews then ''Breaking News'' else ''Expert Analysis'')
                     @ '' '' @ showNat (index + 1),
          aDescription = ''Comprehensive ''
                     @ (if isNews then ''news coverage'' else ''blog analysis'') @ '' of ''
                     @ toLowerCase topic
                     @ '' with expert insights and detailed information for our readers.'',
          aContent = ''This is a detailed ''
                     @ (if isNews then ''news article'' else ''blog post'') @ '' about ''
                     @ toLowerCase topic
                     @ ''. It contains comprehensive information, analysis, and insights that would be valuable to readers interested in this topic. The content is substantive and informative, providing real value to the audience.'',
          aAuthor = author,
          aPublishedAt = stamp index,
          aUrl = ''https://example.com/articles/mock-'' @ showNat (index + 1),
          aUrlToImage = ''https://picsum.photos/400/300?random='' @ showNat (index + 1),
          aSource = \<lparr>srcId = Some (if isNews then ''mock-news'' else ''mock-blog''),
                      srcName = (if isNews then ''Mock News Network''
                                 else ''Professional Blog Hub'')\<rparr>,
          aType = (if isNews then ''news'' else ''blog'')\<rparr>)"

definition getMockArticles :: "(nat \<Rightarrow> string) \<Rightarrow> Article list" where
  "getMockArticles stamp = map (mockArticle stamp) [0..<20]"

definition useMockData :: bool where
  "useMockData = False"

text \<open>
  A \<open>try { \<dots> } catch { log }\<close> block of \<open>fetchAllArticles\<close>: its body either returns
  from the function (\<open>Resolved (Some result)\<close>), runs to its end (\<open>Resolved None\<close>), or
  throws (\<open>Rejected\<close>); the handler only logs, so after a throw control continues below
  the block as it does when the body runs to its end.
\<close>

definition tryCatch :: "'a option outcome \<Rightarrow> 'a option" where
  "tryCatch body = (case body of Rejected \<Rightarrow> None | Resolved r \<Rightarrow> r)"

text \<open>
  The bodies of the three \<open>try\<close> blocks, in the order of the source. The local array
  \<open>articles\<close> of each block is \<open>fetched\<close>, respectively \<open>combined\<close>, here.
\<close>

definition viaServerRoute :: "World \<Rightarrow> Article list option outcome" where
  "viaServerRoute w =
     (case fetchFromServerRoute (serverRoute w) of
        Rejected \<Rightarrow> Rejected
      | Resolved fetched \<Rightarrow>
          if fetched \<noteq> []
          then (if isOnline w
                then (case saveArticles w fetched of
                        Rejected \<Rightarrow> Rejected
                      | Resolved _ \<Rightarrow> Resolved (Some fetched))
                else Resolved (Some fetched))
          else Resolved None)"

definition viaNewsAPI :: "World \<Rightarrow> Article list option outcome" where
  "viaNewsAPI w =
     (let techArticles = fetchFromNewsAPI (apiKeySet w) (newsApiTechnology w);
          generalArticles = fetchFromNewsAPI (apiKeySet w) (newsApiBusiness w);
          combined = (case techArticles of Resolved v \<Rightarrow> v | Rejected \<Rightarrow> [])
                     @ (case generalArticles of Resolved v \<Rightarrow> v | Rejected \<Rightarrow> [])
      in if combined \<noteq> []
         then (case saveArticles w combined of
                 Rejected \<Rightarrow> Rejected
               | Resolved _ \<Rightarrow> Resolved (Some combined))
         else Resolved None)"

definition viaCache :: "World \<Rightarrow> Article list option outcome" where
  "viaCache w =
     (case getArticles w of
        Rejected \<Rightarrow> Rejected
      | Resolved cachedArticles \<Rightarrow>
          if cachedArticles \<noteq> [] then Resolved (Some cachedArticles) else Resolved None)"

text \<open>\<open>fetchAllArticles\<close>, the article acquisition of the specification.\<close>

definition fetchAllArticles :: "World \<Rightarrow> Article list outcome" where
  "fetchAllArticles w =
     (if useMockData then Resolved (getMockArticles (mockPublishedAt w))
      else (case tryCatch (viaServerRoute w) of
              Some fetched \<Rightarrow> Resolved fetched
            | None \<Rightarrow>
                (case tryCatch (viaNewsAPI w) of
                   Some combined \<Rightarrow> Resolved combined
                 | None \<Rightarrow>
                     (case tryCatch (viaCache w) of
                        Some cachedArticles \<Rightarrow> Resolved cachedArticles
                      | None \<Rightarrow> Resolved (getMockArticles (mockPublishedAt w))))))"

section \<open>Sample data\<close>

text \<open>The scenario of the specification: three articles by the authors A, B, A.\<close>

definition sampleArticle :: "string \<Rightarrow> string \<Rightarrow> string \<Rightarrow> string \<Rightarrow> Article" where
  "sampleArticle i au ty published =
     \<lparr>aId = Some i, aTitle = ''Title '' @ i, aDescription = ''About '' @ i, aContent = [],
      aAuthor = au, aPublishedAt = published, aUrl = [], aUrlToImage = [],
      aSource = \<lparr>srcId = None, srcName = ''News API''\<rparr>, aType = ty\<rparr>"

definition scenarioArticles :: "Article list" where
  "scenarioArticles =
     [sampleArticle ''1'' ''A'' ''news'' ''2024-01-10T00:00:00.000Z'',
      sampleArticle ''2'' ''B'' ''blog'' ''2024-01-11T00:00:00.000Z'',
      sampleArticle ''3'' ''A'' ''blog'' ''2024-01-12T00:00:00.000Z'']"

definition scenarioPayoutA :: AuthorPayout where
  "scenarioPayoutA =
     \<lparr>author = ''A'', articleCount = 2, totalPayout = 150,
      articles =
        [\<lparr>liId = Some ''1'', liTitle = ''Title 1'', liType = ''news'',
          liPublishedAt = ''2024-01-10T00:00:00.000Z'', liRate = 50\<rparr>,
         \<lparr>liId = Some ''3'', liTitle = ''Title 3'', liType = ''blog'',
          liPublishedAt = ''2024-01-12T00:00:00.000Z'', liRate = 100\<rparr>]\<rparr>"

text \<open>An article whose type is outside \<open>news\<close> and \<open>blog\<close>, and what the engine makes of it.\<close>

definition podcastArticles :: "Article list" where
  "podcastArticles = [sampleArticle ''7'' ''C'' ''podcast'' ''2024-01-10T00:00:00.000Z'']"

definition podcastItem :: "rat \<Rightarrow> LineItem" where
  "podcastItem r = \<lparr>liId = Some ''7'', liTitle = ''Title 7'', liType = ''podcast'',
          liPublishedAt = ''2024-01-10T00:00:00.000Z'', liRate = r\<rparr>"

definition podcastPayout :: "rat \<Rightarrow> AuthorPayout" where
  "podcastPayout r = \<lparr>author = ''C'', articleCount = 1, totalPayout = r, articles = [podcastItem r]\<rparr>"

text \<open>
  A finite part of the host's \<open>Date\<close> parser: the time values of the timestamps used in
  the examples. Any other string, \<open>not-a-date\<close> among them, is an invalid date here.
\<close>

definition sampleClock :: clock where
  "sampleClock = map_of
     [(''2024-01-10T00:00:00.000Z'', 1704844800000),
      (''2024-01-11T00:00:00.000Z'', 1704931200000),
      (''2024-01-12T00:00:00.000Z'', 1705017600000),
      (''2024-01-11'', 1704931200000)]"

definition scenarioNews :: NewsState where
  "scenarioNews = \<lparr>newsArticles = scenarioArticles, filteredArticles = scenarioArticles,
                   loading = False, error = None\<rparr>"

definition unparseableBounds :: FilterState where
  "unparseableBounds =
     initialFilterState\<lparr>dateFrom := Some ''not-a-date'', dateTo := Some ''tomorrow''\<rparr>"

definition defaultRates :: PayoutRate where
  "defaultRates = \<lparr>newsRate = 50, blogRate = 100\<rparr>"

text \<open>
  Rates in cents, as the settings form produces them with \<open>Number("0.1")\<close> and
  \<open>Number("0.7")\<close>: the doubles nearest to one tenth and to seven tenths. One news article
  by B, then three blog articles by A.
\<close>

definition centRates :: PayoutRate where
  "centRates = \<lparr>newsRate = roundDouble (1 / 10), blogRate = roundDouble (7 / 10)\<rparr>"

definition centState :: PayoutState where
  "centState = \<lparr>rates = centRates, authorPayouts = [], payoutLoading = False,
                payoutError = None\<rparr>"

definition centArticles :: "Article list" where
  "centArticles =
     [sampleArticle ''1'' ''B'' ''news'' ''2024-01-10T00:00:00.000Z'',
      sampleArticle ''2'' ''A'' ''blog'' ''2024-01-11T00:00:00.000Z'',
      sampleArticle ''3'' ''A'' ''blog'' ''2024-01-12T00:00:00.000Z'',
      sampleArticle ''4'' ''A'' ''blog'' ''2024-01-12T00:00:00.000Z'']"

definition centRateOf :: "Article \<Rightarrow> rat" where
  "centRateOf a = (if aType a = ''news'' then newsRate centRates else blogRate centRates)"

text \<open>A news rate of \<open>2^53\<close> and a blog rate of 1; one author with a news and two blog articles.\<close>

definition largeState :: PayoutState where
  "largeState = \<lparr>rates = \<lparr>newsRate = 2 ^ 53, blogRate = 1\<rparr>, authorPayouts = [],
                 payoutLoading = False, payoutError = None\<rparr>"

definition largeArticles :: "Article list" where
  "largeArticles =
     [sampleArticle ''1'' ''A'' ''news'' ''2024-01-10T00:00:00.000Z'',
      sampleArticle ''2'' ''A'' ''blog'' ''2024-01-11T00:00:00.000Z'',
      sampleArticle ''3'' ''A'' ''blog'' ''2024-01-12T00:00:00.000Z'']"

text \<open>The aggregate the engine computes from them.\<close>

definition largePayout :: AuthorPayout where
  "largePayout =
     \<lparr>author = ''A'', articleCount = 3, totalPayout = 2 ^ 53,
      articles =
        [\<lparr>liId = Some ''1'', liTitle = ''Title 1'', liType = ''news'',
          liPublishedAt = ''2024-01-10T00:00:00.000Z'', liRate = 2 ^ 53\<rparr>,
         \<lparr>liId = Some ''2'', liTitle = ''Title 2'', liType = ''blog'',
          liPublishedAt = ''2024-01-11T00:00:00.000Z'', liRate = 1\<rparr>,
         \<lparr>liId = Some ''3'', liTitle = ''Title 3'', liType = ''blog'',
          liPublishedAt = ''2024-01-12T00:00:00.000Z'', liRate = 1\<rparr>]\<rparr>"

text \<open>The rates of an aggregate's line items, added exactly.\<close>

definition exactItemSum :: "AuthorPayout \<Rightarrow> rat" where
  "exactItemSum p = sum_list (map liRate (articles p))"

section \<open>The aggregation loop, characterised\<close>

lemma update_fresh: "map_of m k = None \<Longrightarrow> AList.update k v m = m @ [(k, v)]"
  by (induction m) (auto split: if_splits)

lemma map_entry_keyed:
  "distinct ks \<Longrightarrow> AList.map_entry k f (map (\<lambda>x. (x, g x)) ks)
     = map (\<lambda>x. (x, if x = k then f (g x) else g x)) ks"
  by (induction ks) auto

lemma set_firstSeen [simp]: "set (firstSeen xs) = set xs"
  by (induction xs) auto

lemma distinct_firstSeen [simp]: "distinct (firstSeen xs)"
  by (induction xs) auto

lemma firstSeen_snoc:
  "firstSeen (xs @ [x]) = (if x \<in> set xs then firstSeen xs else firstSeen xs @ [x])"
  by (induction xs) auto

lemma map_of_keyed: "map_of (map (\<lambda>x. (x, g x)) ks) k = (if k \<in> set ks then Some (g k) else None)"
  by (induction ks) auto

lemma aggregateOf_snoc:
  "aggregateOf R (A @ [a]) au =
     (if au = aAuthor a
      then (aggregateOf R A au)
             \<lparr>articleCount := articleCount (aggregateOf R A au) + 1,
              totalPayout := jsAdd (totalPayout (aggregateOf R A au)) (rateOf R (aType a)),
              articles := articles (aggregateOf R A au) @ [lineItemOf R a]\<rparr>
      else aggregateOf R A au)"
  by (simp add: aggregateOf_def articlesBy_def jsSum_def)

lemma aggregateOf_fresh:
  "au \<notin> aAuthor ` set A \<Longrightarrow>
   aggregateOf R A au = \<lparr>author = au, articleCount = 0, totalPayout = 0, articles = []\<rparr>"
proof -
  assume "au \<notin> aAuthor ` set A"
  then have "filter (\<lambda>a. aAuthor a = au) A = []"
    by (auto simp: filter_empty_conv)
  then show ?thesis by (simp add: aggregateOf_def articlesBy_def jsSum_def)
qed

lemma loop_keyed:
  "foldl (addArticle R) [] A = map (\<lambda>au. (au, aggregateOf R A au)) (firstSeen (map aAuthor A))"
proof (induction A rule: rev_induct)
  case Nil
  show ?case by simp
next
  case (snoc a A)
  let ?ks = "firstSeen (map aAuthor A)"
  let ?k = "aAuthor a"
  let ?f = "\<lambda>authorData. authorData
             \<lparr>articleCount := articleCount authorData + 1,
              totalPayout := jsAdd (totalPayout authorData) (rateOf R (aType a)),
              articles := articles authorData @ [lineItemOf R a]\<rparr>"
  have step: "foldl (addArticle R) [] (A @ [a]) =
      addArticle R (map (\<lambda>au. (au, aggregateOf R A au)) ?ks) a"
    using snoc.IH by simp
  show ?case
  proof (cases "?k \<in> set (map aAuthor A)")
    case True
    then have "addArticle R (map (\<lambda>au. (au, aggregateOf R A au)) ?ks) a =
        AList.map_entry ?k ?f (map (\<lambda>au. (au, aggregateOf R A au)) ?ks)"
      by (simp add: addArticle_def Let_def map_of_keyed rateOf_def lineItemOf_def)
    also have "\<dots> = map (\<lambda>au. (au, if au = ?k then ?f (aggregateOf R A au) else aggregateOf R A au)) ?ks"
      by (rule map_entry_keyed) simp
    also have "\<dots> = map (\<lambda>au. (au, aggregateOf R (A @ [a]) au)) ?ks"
      by (simp add: aggregateOf_snoc)
    finally show ?thesis using True step by (simp add: firstSeen_snoc)
  next
    case False
    let ?init = "\<lparr>author = ?k, articleCount = 0, totalPayout = 0, articles = []\<rparr>"
    from False have fresh: "aggregateOf R A ?k = ?init"
      by (intro aggregateOf_fresh) simp
    from False have "addArticle R (map (\<lambda>au. (au, aggregateOf R A au)) ?ks) a =
        AList.map_entry ?k ?f (map (\<lambda>au. (au, aggregateOf R A au)) ?ks @ [(?k, ?init)])"
      by (simp add: addArticle_def Let_def map_of_keyed rateOf_def lineItemOf_def update_fresh)
    also have "\<dots> = AList.map_entry ?k ?f (map (\<lambda>au. (au, aggregateOf R A au)) (?ks @ [?k]))"
      using fresh by simp
    also have "\<dots> = map (\<lambda>au. (au, if au = ?k then ?f (aggregateOf R A au) else aggregateOf R A au)) (?ks @ [?k])"
      using False by (intro map_entry_keyed) simp
    also have "\<dots> = map (\<lambda>au. (au, aggregateOf R (A @ [a]) au)) (?ks @ [?k])"
      by (simp add: aggregateOf_snoc)
    finally show ?thesis using False step by (simp add: firstSeen_snoc)
  qed
qed

lemma aggregate_keyed:
  "aggregate R A = map (aggregateOf R A) (firstSeen (map aAuthor A))"
  by (simp add: aggregate_def loop_keyed comp_def)


lemma sum_list_untouched:
  "k0 \<notin> set ks \<Longrightarrow>
   sum_list (map (\<lambda>k. if k = k0 then S k + (c::'b::comm_monoid_add) else S k) ks)
     = sum_list (map S ks)"
  by (induction ks) auto

lemma sum_list_bump:
  "distinct ks \<Longrightarrow> k0 \<in> set ks \<Longrightarrow>
   sum_list (map (\<lambda>k. if k = k0 then S k + (c::'b::comm_monoid_add) else S k) ks)
     = sum_list (map S ks) + c"
  by (induction ks) (auto simp: sum_list_untouched ac_simps)

lemma sum_list_grouped:
  "distinct ks \<Longrightarrow> g ` set A \<subseteq> set ks \<Longrightarrow>
   sum_list (map (\<lambda>k. sum_list (map f (filter (\<lambda>a. g a = k) A))) ks)
     = sum_list (map (f :: 'a \<Rightarrow> 'b::comm_monoid_add) A)"
proof (induction A rule: rev_induct)
  case Nil
  show ?case by simp
next
  case (snoc a A)
  have "sum_list (map (\<lambda>k. sum_list (map f (filter (\<lambda>a. g a = k) (A @ [a])))) ks)
      = sum_list (map (\<lambda>k. if k = g a then sum_list (map f (filter (\<lambda>a. g a = k) A)) + f a
                             else sum_list (map f (filter (\<lambda>a. g a = k) A))) ks)"
    by (intro arg_cong[where f = sum_list] map_cong) auto
  also have "\<dots> = sum_list (map (\<lambda>k. sum_list (map f (filter (\<lambda>a. g a = k) A))) ks) + f a"
    using snoc.prems by (intro sum_list_bump) auto
  finally show ?case using snoc by simp
qed

lemma rescaleItems_loop:
  "foldl (\<lambda>(totalSoFar, updated) article.
              (let rate = (if liType article = ''news'' then newsRate rs else blogRate rs)
               in (jsAdd totalSoFar rate, updated @ [article\<lparr>liRate := rate\<rparr>])))
         (t, u) items
   = (foldl jsAdd t (map (\<lambda>li. rateOf rs (liType li)) items),
      u @ map (\<lambda>li. li\<lparr>liRate := rateOf rs (liType li)\<rparr>) items)"
  by (induction items arbitrary: t u) (simp_all add: rateOf_def Let_def)

lemma rescaleItems_eq:
  "rescaleItems rs items =
     (jsSum (map (\<lambda>li. rateOf rs (liType li)) items),
      map (\<lambda>li. li\<lparr>liRate := rateOf rs (liType li)\<rparr>) items)"
  unfolding rescaleItems_def jsSum_def by (simp add: rescaleItems_loop)

lemma recalculatePayouts_eq:
  "recalculatePayouts P R =
     map (\<lambda>p. p\<lparr>totalPayout := jsSum (map (\<lambda>li. rateOf R (liType li)) (articles p)),
                articles := map (\<lambda>li. li\<lparr>liRate := rateOf R (liType li)\<rparr>) (articles p)\<rparr>) P"
  by (simp add: recalculatePayouts_def rescaleItems_eq)

section \<open>Sums of whole numbers are exact\<close>

text \<open>
  A whole number up to \<open>2^53\<close> is a double, so adding whole numbers rounds nothing as long
  as the sums stay in that range.
\<close>

lemma roundEven_of_int: "roundEven (of_int k) = k"
  by (simp add: roundEven_def)

lemma roundDouble_of_nat:
  assumes "n \<le> 2 ^ 53"
  shows "roundDouble (of_nat n) = of_nat n"
proof (cases "n = 0")
  case True
  then show ?thesis by (simp add: roundDouble_def)
next
  case False
  then have pos: "0 < int n" by simp
  define L where "L = bitlen (int n) - 1"
  from bitlen_bounds[OF pos] have lo: "2 ^ nat L \<le> int n" and hi: "int n < 2 ^ nat (L + 1)"
    by (simp_all add: L_def)
  have L0: "0 \<le> L" using bitlen_nonneg[of "int n"] pos bitlen_eq_zero_iff[of "int n"]
    by (simp add: L_def)
  have "int n \<le> int (2 ^ 53)" using assms by (simp only: of_nat_le_iff)
  then have ni: "int n \<le> 2 ^ 53" by simp
  have pw: "(2::int) ^ nat L \<le> 2 ^ 53" using lo ni by linarith
  have "nat L \<le> 53" by (rule power_le_imp_le_exp[OF _ pw]) simp
  then have L53: "L \<le> 53" using L0 by linarith
  have x1: "(1::rat) \<le> of_nat n" using False by simp
  have il: "ilog2 \<bar>of_nat n\<bar> = L"
    using x1 by (simp add: ilog2_def L_def)
  have e: "max (ilog2 \<bar>of_nat n :: rat\<bar> - 52) (- 1074) = L - 52"
    using il L0 by simp
  show ?thesis
  proof (cases "L \<le> 52")
    case True
    define d where "d = nat (52 - L)"
    have p: "pow2 (L - 52) = 1 / 2 ^ d"
      using True by (cases "L = 52") (simp_all add: pow2_def d_def)
    have "of_nat n / pow2 (L - 52) = (of_int (int n * 2 ^ d) :: rat)"
      by (simp add: p)
    then have "roundEven (of_nat n / pow2 (L - 52)) = int n * 2 ^ d"
      by (simp only: roundEven_of_int)
    then show ?thesis using False e by (simp add: roundDouble_def p)
  next
    case False
    then have "L = 53" using L53 by simp
    then have "int n = 2 ^ 53" using lo ni by simp
    then have n: "n = 2 ^ 53" by (metis of_nat_eq_iff of_nat_numeral of_nat_power)
    have "(2 ^ 53 / pow2 1 :: rat) = of_int (2 ^ 52)" by (simp add: pow2_def)
    then have "roundEven (2 ^ 53 / pow2 1) = 2 ^ 52" by (simp only: roundEven_of_int)
    then show ?thesis using e \<open>L = 53\<close> by (simp add: roundDouble_def n pow2_def)
  qed
qed

lemma jsAdd_of_nat:
  "a + b \<le> 2 ^ 53 \<Longrightarrow> jsAdd (of_nat a) (of_nat b) = of_nat (a + b)"
  using roundDouble_of_nat[of "a + b"] by (simp add: jsAdd_def)

lemma foldl_jsAdd_of_nat:
  "a + sum_list ns \<le> 2 ^ 53 \<Longrightarrow>
   foldl jsAdd (of_nat a) (map of_nat ns) = of_nat (a + sum_list ns)"
proof (induction ns arbitrary: a)
  case Nil
  show ?case by simp
next
  case (Cons n ns)
  from Cons.prems have "a + n \<le> 2 ^ 53" by simp
  then have "jsAdd (of_nat a) (of_nat n) = of_nat (a + n)" by (rule jsAdd_of_nat)
  moreover from Cons.prems have "(a + n) + sum_list ns \<le> 2 ^ 53" by simp
  ultimately show ?case using Cons.IH[of "a + n"] by (simp add: add.assoc)
qed

lemma jsSum_of_nat:
  "sum_list ns \<le> 2 ^ 53 \<Longrightarrow> jsSum (map of_nat ns) = of_nat (sum_list ns)"
  using foldl_jsAdd_of_nat[of 0 ns] by (simp add: jsSum_def)

lemma sum_list_of_nat: "sum_list (map of_nat ns) = (of_nat (sum_list ns) :: rat)"
  by (induction ns) simp_all

section \<open>The scenarios of the specification, run on the model\<close>

lemma firstSeen_example: "firstSeen ''abacb'' = ''abc''"
  by simp

lemma scenario_calculated:
  "authorPayouts (calculatePayouts initialPayoutState scenarioArticles) =
     [scenarioPayoutA,
      \<lparr>author = ''B'', articleCount = 1, totalPayout = 100,
       articles = [\<lparr>liId = Some ''2'', liTitle = ''Title 2'', liType = ''blog'',
          liPublishedAt = ''2024-01-11T00:00:00.000Z'', liRate = 100\<rparr>]\<rparr>]"
  by code_simp

lemma scenario_rescaled:
  "map (\<lambda>p. (author p, articleCount p, totalPayout p))
     (authorPayouts (updateRates (calculatePayouts initialPayoutState scenarioArticles)
        \<lparr>newsRate = 10, blogRate = 20\<rparr>))
   = [(''A'', 2, 30), (''B'', 1, 20)]"
  by code_simp

lemma calculate_empty: "authorPayouts (calculatePayouts s []) = []"
  by (simp add: calculatePayouts_def aggregate_def)

section \<open>Payout engine: the claims\<close>

lemma whole_rates_bound:
  "sum_list (map (\<lambda>a. if aType a = ''news'' then n else b) xs) \<le> length xs * max n (b::nat)"
proof (induction xs)
  case Nil
  show ?case by simp
next
  case (Cons x xs)
  have "(if aType x = ''news'' then n else b) \<le> max n b" by simp
  with Cons.IH show ?case by (simp del: max.bounded_iff)
qed

text \<open>
  Claim C1, as amended. When both rates are whole numbers and the number of articles times
  the larger rate is at most \<open>2^53\<close>, the totals of the author aggregates installed by
  \<open>calculatePayouts\<close> add up to the sum, over the articles, of the rate of each article's
  type (the news rate for \<open>news\<close>, the blog rate otherwise), whether the two sums are taken
  in double arithmetic from left to right or exactly.
\<close>

theorem payout_total_is_sum_of_whole_rates:
  assumes "newsRate (rates s) = of_nat n" and "blogRate (rates s) = of_nat b"
    and "length A * max n b \<le> 2 ^ 53"
  shows "jsSum (map totalPayout (authorPayouts (calculatePayouts s A)))
           = jsSum (map (\<lambda>a. if aType a = ''news'' then newsRate (rates s)
                                else blogRate (rates s)) A)
       \<and> sum_list (map totalPayout (authorPayouts (calculatePayouts s A)))
           = sum_list (map (\<lambda>a. if aType a = ''news'' then newsRate (rates s)
                                   else blogRate (rates s)) A)"
proof -
  let ?rn = "\<lambda>a. if aType a = ''news'' then n else b"
  let ?ks = "firstSeen (map aAuthor A)"
  let ?group = "\<lambda>au. sum_list (map ?rn (articlesBy au A))"
  have rate: "(\<lambda>a. if aType a = ''news'' then newsRate (rates s) else blogRate (rates s))
      = (\<lambda>a. of_nat (?rn a))"
    by (simp add: fun_eq_iff assms)
  have all: "sum_list (map ?rn A) \<le> 2 ^ 53"
    using whole_rates_bound[of n b A] assms(3) by linarith
  have part: "?group au \<le> 2 ^ 53" for au
  proof -
    have "length (articlesBy au A) * max n b \<le> length A * max n b"
      by (simp add: articlesBy_def)
    then show ?thesis
      using whole_rates_bound[of n b "articlesBy au A"] assms(3) by linarith
  qed
  have total: "totalPayout (aggregateOf (rates s) A au) = of_nat (?group au)" for au
  proof -
    have "totalPayout (aggregateOf (rates s) A au)
        = jsSum (map of_nat (map ?rn (articlesBy au A)))"
      by (simp add: aggregateOf_def rateOf_def rate comp_def)
    then show ?thesis using jsSum_of_nat[OF part[of au]] by simp
  qed
  have totals: "map totalPayout (authorPayouts (calculatePayouts s A))
      = map of_nat (map ?group ?ks)"
    by (simp add: calculatePayouts_def aggregate_keyed total comp_def)
  have grouped: "sum_list (map ?group ?ks) = sum_list (map ?rn A)"
    unfolding articlesBy_def by (rule sum_list_grouped) auto
  have rates_eq: "map (\<lambda>a. if aType a = ''news'' then newsRate (rates s)
                           else blogRate (rates s)) A = map of_nat (map ?rn A)"
    by (simp add: rate comp_def)
  have js: "jsSum (map of_nat (map ?group ?ks)) = of_nat (sum_list (map ?rn A))"
    using jsSum_of_nat[of "map ?group ?ks"] grouped all by simp
  have js': "jsSum (map of_nat (map ?rn A)) = of_nat (sum_list (map ?rn A))"
    using jsSum_of_nat[OF all] by simp
  show ?thesis
    unfolding totals rates_eq by (simp only: js js' sum_list_of_nat grouped)
qed

theorem payout_total_is_sum_of_whole_rates_witness:
  "newsRate (rates initialPayoutState) = of_nat 50
   \<and> blogRate (rates initialPayoutState) = of_nat 100
   \<and> length scenarioArticles * max 50 100 \<le> (2::nat) ^ 53
   \<and> jsSum (map totalPayout (authorPayouts (calculatePayouts initialPayoutState scenarioArticles)))
       = jsSum (map (\<lambda>a. if aType a = ''news'' then newsRate (rates initialPayoutState)
                            else blogRate (rates initialPayoutState)) scenarioArticles)
   \<and> sum_list (map totalPayout
         (authorPayouts (calculatePayouts initialPayoutState scenarioArticles)))
       = sum_list (map (\<lambda>a. if aType a = ''news'' then newsRate (rates initialPayoutState)
                               else blogRate (rates initialPayoutState)) scenarioArticles)"
proof -
  have h1: "newsRate (rates initialPayoutState) = of_nat 50"
    by (simp add: initialPayoutState_def)
  have h2: "blogRate (rates initialPayoutState) = of_nat 100"
    by (simp add: initialPayoutState_def)
  have h3: "length scenarioArticles * max 50 100 \<le> (2::nat) ^ 53"
    by (simp add: scenarioArticles_def)
  from payout_total_is_sum_of_whole_rates[OF h1 h2 h3] h1 h2 h3 show ?thesis by blast
qed

text \<open>
  Claim C1 as stated fails for rates in cents. With a news rate of 0.1 and a blog rate of
  0.7, one news article by B and three blog articles by A, the totals are 0.1 and
  2.0999999999999996 and add up to 2.1999999999999997, while the four rates add up to 2.2;
  the exact sums differ as well.
\<close>

theorem payout_total_cents_counterexample:
  "jsSum (map totalPayout (authorPayouts (calculatePayouts centState centArticles)))
     = 4953959590107545 / 2251799813685248
   \<and> jsSum (map centRateOf centArticles) = 4953959590107546 / 2251799813685248
   \<and> jsSum (map totalPayout (authorPayouts (calculatePayouts centState centArticles)))
       \<noteq> jsSum (map centRateOf centArticles)
   \<and> sum_list (map totalPayout (authorPayouts (calculatePayouts centState centArticles)))
       \<noteq> sum_list (map centRateOf centArticles)"
  by code_simp

text \<open>
  Claim C2, as amended. Every author aggregate installed by \<open>calculatePayouts\<close> has an
  article count equal to the number of its line items, which is the number of articles of
  the collection written by that author, and a total equal to the rates of its line items
  added in double arithmetic from left to right, starting from 0.
\<close>

theorem payout_counts:
  assumes "p \<in> set (authorPayouts (calculatePayouts s A))"
  shows "articleCount p = length (articles p)
       \<and> length (articles p) = length (filter (\<lambda>a. aAuthor a = author p) A)
       \<and> totalPayout p = jsSum (map liRate (articles p))"
proof -
  from assms obtain au where p: "p = aggregateOf (rates s) A au"
    by (auto simp: calculatePayouts_def aggregate_keyed)
  show ?thesis
    by (simp add: p aggregateOf_def articlesBy_def lineItemOf_def comp_def)
qed

theorem payout_counts_witness:
  "scenarioPayoutA \<in> set (authorPayouts (calculatePayouts initialPayoutState scenarioArticles))
   \<and> articleCount scenarioPayoutA = length (articles scenarioPayoutA)
   \<and> length (articles scenarioPayoutA)
       = length (filter (\<lambda>a. aAuthor a = author scenarioPayoutA) scenarioArticles)
   \<and> totalPayout scenarioPayoutA = jsSum (map liRate (articles scenarioPayoutA))"
proof -
  have h: "scenarioPayoutA \<in> set (authorPayouts (calculatePayouts initialPayoutState scenarioArticles))"
    by (simp add: scenario_calculated)
  from payout_counts[OF h] h show ?thesis by simp
qed

text \<open>
  Claim C2 as stated fails when the sum of the line items' rates is the exact sum. With a
  news rate of \<open>2^53\<close> and a blog rate of 1, an author with one news and two blog
  articles has the total \<open>2^53\<close>, each added 1 being rounded away, while the three rates
  sum to \<open>2^53 + 2\<close>.
\<close>

theorem payout_total_rounding_counterexample:
  "largePayout \<in> set (authorPayouts (calculatePayouts largeState largeArticles))
   \<and> totalPayout largePayout = 2 ^ 53
   \<and> exactItemSum largePayout = 2 ^ 53 + 2
   \<and> totalPayout largePayout \<noteq> exactItemSum largePayout"
  by code_simp

text \<open>
  Claim C3. Rescaling the aggregates computed under one rate table to a second rate table
  gives exactly the aggregates computed from the articles under the second one: the two
  lists of aggregates are equal, field by field and in the same order.
\<close>

theorem rescale_equals_calculate:
  "recalculatePayouts (authorPayouts (calculatePayouts s A)) R2
     = authorPayouts (calculatePayouts (s\<lparr>rates := R2\<rparr>) A)"
  by (simp add: calculatePayouts_def recalculatePayouts_eq aggregate_keyed aggregateOf_def
        lineItemOf_def comp_def)

text \<open>
  Claim C4. The authors of the aggregates appear in the order in which each author is first
  met in the article collection, and that order is the same under any other rate table.
\<close>

theorem author_order_first_seen:
  "map author (authorPayouts (calculatePayouts s A)) = firstSeen (map aAuthor A)
   \<and> map author (authorPayouts (calculatePayouts (s\<lparr>rates := R'\<rparr>) A))
       = map author (authorPayouts (calculatePayouts s A))"
  by (simp add: calculatePayouts_def aggregate_keyed aggregateOf_def comp_def)

text \<open>
  Claim C5. \<open>recalculatePayouts\<close> keeps, aggregate by aggregate and in order, the author and
  the article count, and line item by line item and in order, the id, title, type and
  publication date: only the rates and totals can differ.
\<close>

theorem recalculate_frame:
  "map author (recalculatePayouts P R) = map author P
   \<and> map articleCount (recalculatePayouts P R) = map articleCount P
   \<and> map (\<lambda>p. map liId (articles p)) (recalculatePayouts P R) = map (\<lambda>p. map liId (articles p)) P
   \<and> map (\<lambda>p. map liTitle (articles p)) (recalculatePayouts P R)
       = map (\<lambda>p. map liTitle (articles p)) P
   \<and> map (\<lambda>p. map liType (articles p)) (recalculatePayouts P R)
       = map (\<lambda>p. map liType (articles p)) P
   \<and> map (\<lambda>p. map liPublishedAt (articles p)) (recalculatePayouts P R)
       = map (\<lambda>p. map liPublishedAt (articles p)) P"
  by (simp add: recalculatePayouts_eq comp_def)

text \<open>
  Claim C10. Rate resolution is total and falls back to the blog rate: in the output of
  \<open>calculatePayouts\<close> and in the output of \<open>recalculatePayouts\<close>, every line item whose type is
  not exactly \<open>news\<close> carries the blog rate. Both functions return a value on every input;
  neither has an error branch.
\<close>

theorem rate_defaults_to_blog:
  "(p \<in> set (authorPayouts (calculatePayouts s A)) \<and> li \<in> set (articles p)
      \<and> liType li \<noteq> ''news'' \<longrightarrow> liRate li = blogRate (rates s))
   \<and> (q \<in> set (recalculatePayouts P R) \<and> lj \<in> set (articles q)
      \<and> liType lj \<noteq> ''news'' \<longrightarrow> liRate lj = blogRate R)"
  by (auto simp: calculatePayouts_def recalculatePayouts_eq aggregate_keyed aggregateOf_def
        lineItemOf_def rateOf_def)

theorem rate_defaults_to_blog_witness:
  "(podcastPayout 100 \<in> set (authorPayouts (calculatePayouts initialPayoutState podcastArticles))
      \<and> podcastItem 100 \<in> set (articles (podcastPayout 100))
      \<and> liType (podcastItem 100) \<noteq> ''news''
      \<and> liRate (podcastItem 100) = blogRate (rates initialPayoutState))
   \<and> (podcastPayout 20 \<in> set (recalculatePayouts [podcastPayout 100] \<lparr>newsRate = 10, blogRate = 20\<rparr>)
      \<and> podcastItem 20 \<in> set (articles (podcastPayout 20))
      \<and> liType (podcastItem 20) \<noteq> ''news''
      \<and> liRate (podcastItem 20) = blogRate \<lparr>newsRate = 10, blogRate = 20\<rparr>)"
proof -
  have h1: "podcastPayout 100 \<in> set (authorPayouts (calculatePayouts initialPayoutState podcastArticles))"
    by code_simp
  have h2: "podcastPayout 20 \<in> set (recalculatePayouts [podcastPayout 100] \<lparr>newsRate = 10, blogRate = 20\<rparr>)"
    by code_simp
  have h3: "podcastItem r \<in> set (articles (podcastPayout r))" for r
    by (simp add: podcastPayout_def)
  have h4: "liType (podcastItem r) \<noteq> ''news''" for r
    by (simp add: podcastItem_def)
  from rate_defaults_to_blog[of "podcastPayout 100" initialPayoutState podcastArticles
        "podcastItem 100" "podcastPayout 20" "[podcastPayout 100]"
        "\<lparr>newsRate = 10, blogRate = 20\<rparr>" "podcastItem 20"]
    h1 h2 h3 h4
  show ?thesis by simp
qed

section \<open>News slice: the claims\<close>

lemma objects_of_filter:
  "map Object [a. Object a \<leftarrow> filter (\<lambda>e. case e of NonObject \<Rightarrow> False | Object a \<Rightarrow> P a) es]
     = filter (\<lambda>e. case e of NonObject \<Rightarrow> False | Object a \<Rightarrow> P a) es"
  by (induction es) (auto split: entry.splits)

text \<open>
  Claim C6. For every incoming array, the collection installed by \<open>fetchNewsSuccess\<close>
  consists of exactly the entries that are objects with a non-empty \<open>id\<close>, in their original
  order; entries that are not objects, or whose \<open>id\<close> is missing or empty, are left out. The
  filtered collection is set to the same list.
\<close>

theorem fetchNewsSuccess_keeps_identified:
  "map Object (newsArticles (fetchNewsSuccess s (ArrayOf es)))
     = filter (\<lambda>e. \<exists>a i. e = Object a \<and> aId a = Some i \<and> i \<noteq> []) es
   \<and> filteredArticles (fetchNewsSuccess s (ArrayOf es))
     = newsArticles (fetchNewsSuccess s (ArrayOf es))"
proof -
  have "(\<lambda>e. case e of NonObject \<Rightarrow> False | Object a \<Rightarrow> truthy (aId a))
      = (\<lambda>e. \<exists>a i. e = Object a \<and> aId a = Some i \<and> i \<noteq> [])"
    by (auto simp: fun_eq_iff truthy_def split: entry.splits option.splits)
  then show ?thesis
    using objects_of_filter[of "\<lambda>a. truthy (aId a)" es]
    by (simp add: fetchNewsSuccess_def Let_def)
qed

text \<open>
  One entry without an \<open>id\<close>, one that is not an object and one with an empty \<open>id\<close> are
  dropped; the other two stay, in order.
\<close>

lemma fetchNewsSuccess_example:
  "newsArticles (fetchNewsSuccess scenarioNews
     (ArrayOf [Object (sampleArticle ''1'' ''A'' ''news'' []),
               Object ((sampleArticle ''2'' ''B'' ''blog'' [])\<lparr>aId := None\<rparr>),
               NonObject,
               Object ((sampleArticle ''3'' ''A'' ''blog'' [])\<lparr>aId := Some []\<rparr>),
               Object (sampleArticle ''4'' ''B'' ''news'' [])]))
   = [sampleArticle ''1'' ''A'' ''news'' [], sampleArticle ''4'' ''B'' ''news'' []]"
  by (simp add: fetchNewsSuccess_def Let_def truthy_def sampleArticle_def)

lemma byDateFrom_filter: "byDateFrom clock df xs = filter (withinLower clock df) xs"
  by (auto simp: byDateFrom_def withinLower_def dateGe_def Let_def
      split: option.splits intro!: filter_cong)

lemma byDateTo_filter: "byDateTo clock dt xs = filter (withinUpper clock dt) xs"
  by (auto simp: byDateTo_def withinUpper_def dateLe_def Let_def
      split: option.splits intro!: filter_cong)

lemma byType_filter: "\<exists>P. \<forall>xs. byType ty xs = filter P xs"
proof (cases "ty \<noteq> [] \<and> ty \<noteq> ''all''")
  case True
  then show ?thesis unfolding byType_def by (intro exI[of _ "\<lambda>a. aType a \<noteq> [] \<and> aType a = ty"]) simp
next
  case False
  then show ?thesis unfolding byType_def by (intro exI[of _ "\<lambda>a. True"]) auto
qed

lemma bySearch_filter: "\<exists>P. \<forall>xs. bySearch sq xs = filter P xs"
proof (cases "sq \<noteq> []")
  case True
  then show ?thesis unfolding bySearch_def Let_def
    by (intro exI[of _ "\<lambda>article.
                 (aTitle article \<noteq> [] \<and> includes_js (toLowerCase (aTitle article)) (toLowerCase sq)) \<or>
                 (aDescription article \<noteq> [] \<and>
                    includes_js (toLowerCase (aDescription article)) (toLowerCase sq)) \<or>
                 (aAuthor article \<noteq> [] \<and> includes_js (toLowerCase (aAuthor article)) (toLowerCase sq))"]) simp
next
  case False
  then show ?thesis unfolding bySearch_def by (intro exI[of _ "\<lambda>a. True"]) auto
qed

text \<open>
  Claim C7, as amended. The lower and upper publication-date bounds are inclusive and each
  is applied whenever it is set (neither \<open>null\<close> nor empty): the result of \<open>filterNews\<close> is the
  result with both bounds unset, restricted to the articles that satisfy \<open>withinLower\<close> and
  \<open>withinUpper\<close>. A bound that is set but is not a valid date is applied as well, and no
  article satisfies it: the result is then empty.
\<close>

theorem date_bounds_apply_when_set:
  "filteredArticles (filterNews clock st f)
     = filter (\<lambda>a. withinLower clock (dateFrom f) a \<and> withinUpper clock (dateTo f) a)
         (filteredArticles (filterNews clock st (f\<lparr>dateFrom := None, dateTo := None\<rparr>)))
   \<and> (dateFrom f = Some d \<and> d \<noteq> [] \<and> clock d = None
        \<longrightarrow> filteredArticles (filterNews clock st f) = [])
   \<and> (dateTo f = Some e \<and> e \<noteq> [] \<and> clock e = None
        \<longrightarrow> filteredArticles (filterNews clock st f) = [])"
proof -
  obtain Pt where Pt: "\<And>xs. byType (fType f) xs = filter Pt xs"
    using byType_filter by blast
  obtain Ps where Ps: "\<And>xs. bySearch (searchQuery f) xs = filter Ps xs"
    using bySearch_filter by blast
  have unset: "withinLower clock None a" "withinUpper clock None a" for a
    by (simp_all add: withinLower_def withinUpper_def)
  have eq: "filteredArticles (filterNews clock st f)
     = filter (\<lambda>a. withinLower clock (dateFrom f) a \<and> withinUpper clock (dateTo f) a)
         (filteredArticles (filterNews clock st (f\<lparr>dateFrom := None, dateTo := None\<rparr>)))"
    by (simp add: filterNews_def Pt Ps unset byDateFrom_filter byDateTo_filter)
       (auto intro!: filter_cong)
  have lo: "filteredArticles (filterNews clock st f) = []"
    if "dateFrom f = Some d" "d \<noteq> []" "clock d = None"
    unfolding eq using that by (simp add: withinLower_def split: option.splits)
  have hi: "filteredArticles (filterNews clock st f) = []"
    if "dateTo f = Some e" "e \<noteq> []" "clock e = None"
    unfolding eq using that by (simp add: withinUpper_def split: option.splits)
  from eq lo hi show ?thesis by blast
qed

theorem date_bounds_apply_when_set_witness:
  "dateFrom unparseableBounds = Some ''not-a-date'' \<and> ''not-a-date'' \<noteq> []
   \<and> sampleClock ''not-a-date'' = None
   \<and> dateTo unparseableBounds = Some ''tomorrow'' \<and> ''tomorrow'' \<noteq> []
   \<and> sampleClock ''tomorrow'' = None
   \<and> filteredArticles (filterNews sampleClock scenarioNews unparseableBounds) = []"
proof -
  have h: "dateFrom unparseableBounds = Some ''not-a-date'' \<and> ''not-a-date'' \<noteq> []
      \<and> sampleClock ''not-a-date'' = None
      \<and> dateTo unparseableBounds = Some ''tomorrow'' \<and> ''tomorrow'' \<noteq> []
      \<and> sampleClock ''tomorrow'' = None"
    by (simp add: unparseableBounds_def initialFilterState_def sampleClock_def)
  from date_bounds_apply_when_set
         [of sampleClock scenarioNews unparseableBounds "''not-a-date''" "''tomorrow''"] h
  show ?thesis by blast
qed

text \<open>
  Claim C7 as stated fails: with the lower bound set to a string that is not a date, the
  filter returns no article, while with the bound unset it returns all three.
\<close>

theorem unparseable_bound_counterexample:
  "sampleClock ''not-a-date'' = None
   \<and> filteredArticles (filterNews sampleClock scenarioNews
        (initialFilterState\<lparr>dateFrom := Some ''not-a-date''\<rparr>)) = []
   \<and> filteredArticles (filterNews sampleClock scenarioNews initialFilterState) = scenarioArticles
   \<and> filteredArticles (filterNews sampleClock scenarioNews
        (initialFilterState\<lparr>dateFrom := Some ''not-a-date''\<rparr>))
      \<noteq> filteredArticles (filterNews sampleClock scenarioNews initialFilterState)"
  by (simp add: filterNews_def byAuthor_def byDateFrom_def byDateTo_def byType_def bySearch_def
      dateGe_def sampleClock_def scenarioNews_def initialFilterState_def scenarioArticles_def
      sampleArticle_def)

text \<open>Both bounds on the same instant keep the article published at that instant.\<close>

lemma date_bounds_inclusive_example:
  "filteredArticles (filterNews sampleClock scenarioNews
      (initialFilterState\<lparr>dateFrom := Some ''2024-01-11'', dateTo := Some ''2024-01-11''\<rparr>))
     = [sampleArticle ''2'' ''B'' ''blog'' ''2024-01-11T00:00:00.000Z'']"
  by (simp add: filterNews_def byAuthor_def byDateFrom_def byDateTo_def byType_def bySearch_def
      dateGe_def dateLe_def sampleClock_def scenarioNews_def initialFilterState_def
      scenarioArticles_def sampleArticle_def)

section \<open>News service: the claim\<close>

lemma getMockArticles_length: "length (getMockArticles stamp) = 20"
  by (simp add: getMockArticles_def)

text \<open>
  Claim C8. Whatever the mediated fetch, the two direct provider fetches, the connectivity
  probe, the cache writes and the cache read do (resolve with articles, resolve empty, or
  reject), \<open>fetchAllArticles\<close> resolves, and the collection it resolves to is not empty: at
  worst it is the twenty mock articles.
\<close>

theorem fetchAllArticles_nonempty:
  "\<exists>as. fetchAllArticles w = Resolved as \<and> as \<noteq> []"
proof -
  have mock: "getMockArticles (mockPublishedAt w) \<noteq> []"
    using getMockArticles_length[of "mockPublishedAt w"] by auto
  have a: "tryCatch (viaServerRoute w) = Some as \<Longrightarrow> as \<noteq> []" for as
    by (auto simp: tryCatch_def viaServerRoute_def split: outcome.splits if_splits)
  have b: "tryCatch (viaNewsAPI w) = Some as \<Longrightarrow> as \<noteq> []" for as
    by (auto simp: tryCatch_def viaNewsAPI_def Let_def split: outcome.splits if_splits)
  have c: "tryCatch (viaCache w) = Some as \<Longrightarrow> as \<noteq> []" for as
    by (auto simp: tryCatch_def viaCache_def split: outcome.splits if_splits)
  show ?thesis
    using mock a b c by (auto simp: fetchAllArticles_def split: option.splits)
qed

text \<open>
  The worst case: the server route rejects, no provider key is configured and the cache
  read rejects or is empty. The result is the mock collection, two news items to one blog
  item.
\<close>

lemma fetchAllArticles_worst_case:
  assumes "serverRoute w = Rejected" "\<not> apiKeySet w" "getArticles w = Rejected \<or> getArticles w = Resolved []"
  shows "fetchAllArticles w = Resolved (getMockArticles (mockPublishedAt w))"
  using assms
  by (auto simp: fetchAllArticles_def useMockData_def tryCatch_def viaServerRoute_def
      viaNewsAPI_def viaCache_def fetchFromServerRoute_def fetchFromNewsAPI_def)

lemma mock_mix:
  "map aType (getMockArticles stamp) =
     [''blog'', ''news'', ''news'', ''blog'', ''news'', ''news'', ''blog'', ''news'', ''news'',
      ''blog'', ''news'', ''news'', ''blog'', ''news'', ''news'', ''blog'', ''news'', ''news'',
      ''blog'', ''news'']"
  by (simp add: getMockArticles_def mockArticle_def Let_def upt_rec[of _ "numeral _"] upt_rec[of 0])

section \<open>Offline store: the claim\<close>

text \<open>
  Claim C9, as amended. When \<open>savePayoutRates r\<close> has completed, \<open>getPayoutRates\<close> (its
  read request succeeding) resolves to the stored record \<open>{ id: 'payoutRates', ...r }\<close>:
  \<open>r\<close> extended by the key field, with the news and blog rates of \<open>r\<close>. On a database
  that opens and holds no record under the key, it resolves to \<open>null\<close>. It rejects only
  when the database does not open or the read request fails, whatever the store holds.
\<close>

theorem rates_round_trip:
  "(savePayoutRates (plainRates r) commits db = (Resolved (), db') \<longrightarrow>
      getPayoutRates True db'
        = Resolved (Found \<lparr>newsRate = newsRate r, blogRate = blogRate r,
                            objId = Some ''payoutRates''\<rparr>))
   \<and> (opens db \<and> settingsStore db ''payoutRates'' = None \<longrightarrow>
        getPayoutRates True db = Resolved Null)
   \<and> ((getPayoutRates succeeds db = Rejected) = (\<not> opens db \<or> \<not> succeeds))"
  by (auto simp: savePayoutRates_def getPayoutRates_def plainRates_def keyOf_def withKey_def
      storeGet_def orNull_def split: if_splits option.splits reading.splits)

theorem rates_round_trip_witness:
  "savePayoutRates (plainRates defaultRates) True freshDB
     = (Resolved (), snd (savePayoutRates (plainRates defaultRates) True freshDB))
   \<and> getPayoutRates True (snd (savePayoutRates (plainRates defaultRates) True freshDB))
       = Resolved (Found \<lparr>newsRate = newsRate defaultRates, blogRate = blogRate defaultRates,
                           objId = Some ''payoutRates''\<rparr>)
   \<and> opens freshDB \<and> settingsStore freshDB ''payoutRates'' = None
   \<and> getPayoutRates True freshDB = Resolved Null"
proof -
  have h1: "savePayoutRates (plainRates defaultRates) True freshDB
     = (Resolved (), snd (savePayoutRates (plainRates defaultRates) True freshDB))"
    by (simp add: savePayoutRates_def freshDB_def)
  have h2: "opens freshDB \<and> settingsStore freshDB ''payoutRates'' = None"
    by (simp add: freshDB_def)
  from rates_round_trip
         [of defaultRates True freshDB
             "snd (savePayoutRates (plainRates defaultRates) True freshDB)"] h1 h2
  show ?thesis by blast
qed

text \<open>
  Claim C9 as stated fails: after the rate table with the rates 50 and 100 has been saved
  into a fresh database, the read does not resolve to that table but to the table with the
  property \<open>id\<close> added.
\<close>

theorem rates_round_trip_counterexample:
  "fst (savePayoutRates (plainRates defaultRates) True freshDB) = Resolved ()
   \<and> getPayoutRates True (snd (savePayoutRates (plainRates defaultRates) True freshDB))
       = Resolved (Found \<lparr>newsRate = 50, blogRate = 100, objId = Some ''payoutRates''\<rparr>)
   \<and> plainRates defaultRates = \<lparr>newsRate = 50, blogRate = 100, objId = None\<rparr>
   \<and> getPayoutRates True (snd (savePayoutRates (plainRates defaultRates) True freshDB))
       \<noteq> Resolved (Found (plainRates defaultRates))"
  by (simp add: savePayoutRates_def getPayoutRates_def plainRates_def keyOf_def withKey_def
      storeGet_def orNull_def freshDB_def defaultRates_def)

text \<open>A table that already carries the key comes back as it went in.\<close>

lemma rates_round_trip_with_key:
  "objId rs = Some ''payoutRates'' \<Longrightarrow>
   savePayoutRates rs commits db = (Resolved (), db') \<Longrightarrow>
   getPayoutRates True db' = Resolved (Found rs)"
  by (auto simp: savePayoutRates_def getPayoutRates_def keyOf_def withKey_def
      storeGet_def orNull_def split: if_splits)

end
